theory Spec2Isabelle
  imports Complex_Main "HOL-Library.Char_ord" "HOL-Library.List_Lexorder" "HOL-Library.AList"
begin

section \<open>JavaScript values used by the wallet service\<close>

text \<open>
  A JavaScript number is modelled by the decimal that \<open>Number.prototype.toString\<close> prints
  for it: a sign, the significant decimal digits \<open>s\<close> (most significant first, \<open>k\<close> of
  them, no leading and no trailing zero) and the position \<open>n\<close> of the decimal point, so
  that the value is \<open>s * 10 ^ (n - k)\<close>. Zero has no digits. \<open>NaN\<close> and the infinities are
  outside the model, and arithmetic on values is exact (rational), which is the
  fixed-point reading the service intends for money.
\<close>

datatype number = Number (negative: bool) (digits: "nat list") (pt: int)

definition canonical :: "number \<Rightarrow> bool" where
  "canonical x \<longleftrightarrow>
     list_all (\<lambda>d. d < 10) (digits x) \<and>
     (digits x = [] \<or> (hd (digits x) \<noteq> 0 \<and> last (digits x) \<noteq> 0))"

definition digits_val :: "nat list \<Rightarrow> nat" where
  "digits_val ds = foldl (\<lambda>a d. 10 * a + d) 0 ds"

definition pow10 :: "int \<Rightarrow> rat" where
  "pow10 e = (if 0 \<le> e then 10 ^ nat e else 1 / 10 ^ nat (- e))"

definition numval :: "number \<Rightarrow> rat" where
  "numval x =
     (if negative x then - 1 else 1) * of_nat (digits_val (digits x))
       * pow10 (pt x - int (length (digits x)))"

text \<open>The number of digits after the decimal point in the decimal expansion of the value.\<close>

definition fraction_digits :: "number \<Rightarrow> nat" where
  "fraction_digits x = (if digits x = [] then 0 else nat (int (length (digits x)) - pt x))"

definition digit_char :: "nat \<Rightarrow> char" where
  "digit_char d = ''0123456789'' ! d"

fun string_of_nat :: "nat \<Rightarrow> string" where
  "string_of_nat n =
     (if n < 10 then [digit_char n] else string_of_nat (n div 10) @ [digit_char (n mod 10)])"

declare string_of_nat.simps [simp del]

text \<open>
  \<open>Number::toString\<close> of ECMAScript for radix 10: fixed notation when the decimal point
  position \<open>n\<close> lies in \<open>-5 .. 21\<close>, exponent notation otherwise.
\<close>

definition toString :: "number \<Rightarrow> string" where
  "toString x =
     (if digits x = [] then ''0''
      else
        (if negative x then ''-'' else '''') @
        (let k = int (length (digits x)); s = map digit_char (digits x); n = pt x in
         if - 5 \<le> n \<and> n \<le> 21 then
           (if k \<le> n then s @ replicate (nat (n - k)) (CHR ''0'')
            else if 0 < n then take (nat n) s @ ''.'' @ drop (nat n) s
            else ''0.'' @ replicate (nat (- n)) (CHR ''0'') @ s)
         else
           (let e = n - 1;
                c = (if e < 0 then ''-'' else ''+'');
                ea = string_of_nat (nat \<bar>e\<bar>)
            in if k = 1 then s @ ''e'' @ c @ ea
               else take 1 s @ ''.'' @ drop 1 s @ ''e'' @ c @ ea)))"

text \<open>\<open>String.prototype.split\<close> with a one-character separator.\<close>

fun split_on :: "char \<Rightarrow> string \<Rightarrow> string list" where
  "split_on c [] = [[]]"
| "split_on c (x # xs) =
     (if x = c then [] # split_on c xs
      else (case split_on c xs of [] \<Rightarrow> [[x]] | y # ys \<Rightarrow> (x # y) # ys))"

text \<open>\<open>String.prototype.padStart\<close> with a one-character filler.\<close>

definition padStart :: "nat \<Rightarrow> char \<Rightarrow> string \<Rightarrow> string" where
  "padStart n c s = replicate (n - length s) c @ s"

section \<open>Request data and its canonical JSON text\<close>

text \<open>
  The request data handed to the idempotency service is a JSON value. Objects are lists
  of key and value in insertion order, with distinct keys.
\<close>

datatype json =
    JNull
  | JBool bool
  | JNum number
  | JStr string
  | JArr "json list"
  | JObj "(string \<times> json) list"

text \<open>
  \<open>IdempotencyService.sortObjectKeys\<close>: primitives are returned as they are, arrays are
  mapped, and an object is rebuilt with its keys in sorted order.
\<close>

fun sortObjectKeys :: "json \<Rightarrow> json" where
  "sortObjectKeys (JArr xs) = JArr (map sortObjectKeys xs)"
| "sortObjectKeys (JObj kvs) =
     JObj (sort_key fst (map (\<lambda>(k, v). (k, sortObjectKeys v)) kvs))"
| "sortObjectKeys v = v"

fun intercalate :: "string \<Rightarrow> string list \<Rightarrow> string" where
  "intercalate sep [] = []"
| "intercalate sep [x] = x"
| "intercalate sep (x # xs) = x @ sep @ intercalate sep xs"

definition hex_digit :: "nat \<Rightarrow> char" where
  "hex_digit d = ''0123456789abcdef'' ! d"

text \<open>The escapes of \<open>JSON.stringify\<close> for one character of a string.\<close>

definition quote_char :: "char \<Rightarrow> string" where
  "quote_char c =
     (if c = CHR 0x08 then [CHR 0x5C, CHR ''b'']
      else if c = CHR 0x09 then [CHR 0x5C, CHR ''t'']
      else if c = CHR 0x0A then [CHR 0x5C, CHR ''n'']
      else if c = CHR 0x0C then [CHR 0x5C, CHR ''f'']
      else if c = CHR 0x0D then [CHR 0x5C, CHR ''r'']
      else if c = CHR 0x22 then [CHR 0x5C, CHR 0x22]
      else if c = CHR 0x5C then [CHR 0x5C, CHR 0x5C]
      else if (of_char c :: nat) < 32 then
        [CHR 0x5C, CHR ''u'', CHR ''0'', CHR ''0'',
         hex_digit (of_char c div 16), hex_digit (of_char c mod 16)]
      else [c])"

definition quote :: "string \<Rightarrow> string" where
  "quote s = [CHR 0x22] @ concat (map quote_char s) @ [CHR 0x22]"

text \<open>\<open>JSON.stringify\<close> without indentation.\<close>

fun stringify :: "json \<Rightarrow> string" where
  "stringify JNull = ''null''"
| "stringify (JBool b) = (if b then ''true'' else ''false'')"
| "stringify (JNum x) = toString x"
| "stringify (JStr s) = quote s"
| "stringify (JArr xs) = ''['' @ intercalate '','' (map stringify xs) @ '']''"
| "stringify (JObj kvs) =
     ''{'' @ intercalate '','' (map (\<lambda>(k, v). quote k @ '':'' @ stringify v) kvs) @ ''}''"

section \<open>Domain errors\<close>

text \<open>
  The classes of \<open>domain.errors.ts\<close>, and \<open>PlainError\<close> for the plain \<open>Error\<close> that the
  entity constructors and methods throw.
\<close>

datatype error =
    WalletNotFoundError string
  | WalletAlreadyExistsError string
  | InsufficientBalanceError string rat rat
  | DuplicateTransactionError string json
  | InvalidTransactionAmountError number string
  | SameWalletTransferError string
  | ConcurrentModificationError string string
  | PlainError string

section \<open>Amount validation (\<open>WalletService.validateAmount\<close>)\<close>

definition MAX_AMOUNT :: rat where
  "MAX_AMOUNT = 1000000"

definition validateAmount :: "number \<Rightarrow> error + unit" where
  "validateAmount amount =
     (if numval amount \<le> 0 then
        Inl (InvalidTransactionAmountError amount ''Amount must be positive'')
      else if numval amount > MAX_AMOUNT then
        Inl (InvalidTransactionAmountError amount ''Amount cannot exceed 1000000'')
      else
        (let decimals =
               length (case split_on (CHR ''.'') (toString amount) of
                         _ # d # _ \<Rightarrow> d
                       | _ \<Rightarrow> [])
         in if decimals > 2 then
              Inl (InvalidTransactionAmountError amount
                     ''Amount cannot have more than 2 decimal places'')
            else Inr ()))"

section \<open>The wallet entity\<close>

datatype Currency = USD

record Wallet =
  wallet_id :: string
  currency :: Currency
  balance :: rat
  version :: int
  createdAt :: nat
  updatedAt :: nat

text \<open>The constructor; \<open>now\<close> is what \<open>new Date()\<close> returns, in milliseconds.\<close>

definition new_Wallet :: "nat \<Rightarrow> string \<Rightarrow> Currency \<Rightarrow> rat \<Rightarrow> error + Wallet" where
  "new_Wallet now i cur bal =
     (if bal < 0 then Inl (PlainError ''Wallet balance cannot be negative'')
      else Inr \<lparr>wallet_id = i, currency = cur, balance = bal, version = 1,
                createdAt = now, updatedAt = now\<rparr>)"

definition fund :: "nat \<Rightarrow> rat \<Rightarrow> Wallet \<Rightarrow> error + Wallet" where
  "fund now amount w =
     (if amount \<le> 0 then Inl (PlainError ''Fund amount must be positive'')
      else Inr (w\<lparr>balance := balance w + amount, updatedAt := now, version := version w + 1\<rparr>))"

definition deduct :: "nat \<Rightarrow> rat \<Rightarrow> Wallet \<Rightarrow> error + Wallet" where
  "deduct now amount w =
     (if amount \<le> 0 then Inl (PlainError ''Deduct amount must be positive'')
      else if amount > balance w then Inl (PlainError ''Insufficient balance'')
      else Inr (w\<lparr>balance := balance w - amount, updatedAt := now, version := version w + 1\<rparr>))"

definition hasSufficientBalance :: "rat \<Rightarrow> Wallet \<Rightarrow> bool" where
  "hasSufficientBalance amount w \<longleftrightarrow> balance w \<ge> amount"

section \<open>The in-memory wallet repository\<close>

text \<open>
  The \<open>Map<string, Wallet>\<close> of the repository, in insertion order. \<open>Map.get\<close> is
  \<open>map_of\<close> and \<open>Map.set\<close> is \<open>AList.update\<close>, which replaces the value of a key already
  present and appends a new key at the end.
\<close>

type_synonym wallets = "(string \<times> Wallet) list"

definition cloneWallet :: "nat \<Rightarrow> Wallet \<Rightarrow> error + Wallet" where
  "cloneWallet now w =
     (case new_Wallet now (wallet_id w) (currency w) (balance w) of
        Inl e \<Rightarrow> Inl e
      | Inr cloned \<Rightarrow> Inr (cloned\<lparr>version := version w, updatedAt := updatedAt w\<rparr>))"

text \<open>
  \<open>update\<close> returns its result (an exception, or the boolean), the wallet argument as
  the call leaves it (the caller's object is mutated in place) and the stored wallets.
\<close>

definition update ::
  "nat \<Rightarrow> Wallet \<Rightarrow> int \<Rightarrow> wallets \<Rightarrow> (error + bool) \<times> Wallet \<times> wallets" where
  "update now wallet expectedVersion ws =
     (case map_of ws (wallet_id wallet) of
        None \<Rightarrow> (Inr False, wallet, ws)
      | Some existingWallet \<Rightarrow>
          if version existingWallet \<noteq> expectedVersion then (Inr False, wallet, ws)
          else
            (let wallet' = wallet\<lparr>version := expectedVersion + 1, updatedAt := now\<rparr> in
             case cloneWallet now wallet' of
               Inl e \<Rightarrow> (Inl e, wallet', ws)
             | Inr c \<Rightarrow> (Inr True, wallet', AList.update (wallet_id wallet) c ws)))"



section \<open>The transaction entity\<close>

datatype TransactionType = FUNDING | TRANSFER | WITHDRAWAL

datatype TransactionStatus = PENDING | COMPLETED | FAILED | REVERSED

type_synonym metadata = "(string \<times> string) list"

record Transaction =
  tx_id :: string
  tx_reference :: string
  tx_type :: TransactionType
  tx_sourceWalletId :: "string option"
  tx_targetWalletId :: string
  tx_amount :: rat
  tx_currency :: Currency
  tx_status :: TransactionStatus
  tx_metadata :: "metadata option"
  tx_createdAt :: nat
  tx_updatedAt :: nat

text \<open>
  The constructor with its two validations. A source wallet id is "truthy" when it is
  neither \<open>null\<close> nor the empty string.
\<close>

definition new_Transaction ::
  "nat \<Rightarrow> string \<Rightarrow> string \<Rightarrow> TransactionType \<Rightarrow> string option \<Rightarrow> string \<Rightarrow> rat \<Rightarrow>
   Currency \<Rightarrow> TransactionStatus option \<Rightarrow> metadata option \<Rightarrow> error + Transaction" where
  "new_Transaction now i ref ty src tgt amt cur st md =
     (if amt \<le> 0 then Inl (PlainError ''Transaction amount must be positive'')
      else if ty = FUNDING \<and> (src \<noteq> None \<and> src \<noteq> Some '''') then
        Inl (PlainError ''Funding transactions should not have a source wallet'')
      else if ty = TRANSFER \<and> (src = None \<or> src = Some '''') then
        Inl (PlainError ''Transfer transactions must have a source wallet'')
      else Inr \<lparr>tx_id = i, tx_reference = ref, tx_type = ty, tx_sourceWalletId = src,
                tx_targetWalletId = tgt, tx_amount = amt, tx_currency = cur,
                tx_status = (case st of None \<Rightarrow> COMPLETED | Some x \<Rightarrow> x),
                tx_metadata = md, tx_createdAt = now, tx_updatedAt = now\<rparr>)"

section \<open>The transaction log\<close>

text \<open>
  Modelled from the spec: \<open>TransactionRepository.create\<close> (the append of the
  append-only transaction log, whose source file is not part of the sources at hand)
  fails if the id collides with a stored transaction and otherwise appends the
  transaction and returns it.
\<close>

definition transaction_create ::
  "Transaction \<Rightarrow> Transaction list \<Rightarrow> (error + Transaction) \<times> Transaction list" where
  "transaction_create t txs =
     (if tx_id t \<in> set (map tx_id txs) then
        (Inl (PlainError ''Transaction already exists''), txs)
      else (Inr t, txs @ [t]))"

section \<open>The reference generator\<close>

text \<open>The UTC calendar fields of a \<open>Date\<close>, as \<open>toISOString\<close> prints them.\<close>

record Date =
  d_year :: int
  d_month :: nat
  d_day :: nat
  d_hours :: nat
  d_minutes :: nat
  d_seconds :: nat
  d_milliseconds :: nat

definition pad :: "nat \<Rightarrow> nat \<Rightarrow> string" where
  "pad n v = padStart n (CHR ''0'') (string_of_nat v)"

definition toISOString :: "Date \<Rightarrow> string" where
  "toISOString d =
     (if 0 \<le> d_year d \<and> d_year d \<le> 9999 then pad 4 (nat (d_year d))
      else (if d_year d < 0 then ''-'' else ''+'') @ pad 6 (nat \<bar>d_year d\<bar>))
     @ ''-'' @ pad 2 (d_month d) @ ''-'' @ pad 2 (d_day d)
     @ ''T'' @ pad 2 (d_hours d) @ '':'' @ pad 2 (d_minutes d) @ '':'' @ pad 2 (d_seconds d)
     @ ''.'' @ pad 3 (d_milliseconds d) @ ''Z''"

definition toUpperCase :: "string \<Rightarrow> string" where
  "toUpperCase s =
     map (\<lambda>c. case map_of (zip ''abcdefghijklmnopqrstuvwxyz'' ''ABCDEFGHIJKLMNOPQRSTUVWXYZ'') c of
                 None \<Rightarrow> c
               | Some u \<Rightarrow> u) s"

text \<open>\<open>String.prototype.substring\<close> for indices \<open>i \<le> j\<close>.\<close>

definition substring :: "nat \<Rightarrow> nat \<Rightarrow> string \<Rightarrow> string" where
  "substring i j s = take (j - i) (drop i s)"

text \<open>
  \<open>generateTransactionReference\<close>. The inputs are the date that \<open>new Date()\<close> returns,
  the text of \<open>Math.random().toString(36)\<close> and the counter of the service; the results
  are the reference and the new counter.
\<close>

definition generateTransactionReference :: "Date \<Rightarrow> string \<Rightarrow> nat \<Rightarrow> string \<times> nat" where
  "generateTransactionReference date rnd transactionCounter =
     (let timestamp = substring 0 14 (filter (\<lambda>c. c \<notin> set ''-:T.Z'') (toISOString date));
          transactionCounter' = (transactionCounter mod 1000) + 1;
          counter = padStart 3 (CHR ''0'') (string_of_nat transactionCounter');
          random = toUpperCase (substring 2 6 rnd)
      in (''TXN-'' @ timestamp @ ''-'' @ counter @ ''-'' @ random, transactionCounter'))"

text \<open>
  The format the references are meant to have, \<open>TXN-\<close> fourteen digits \<open>-\<close> three
  digits \<open>-\<close> four upper-case letters or digits, as the service's test states it.
\<close>

definition is_digit :: "char \<Rightarrow> bool" where
  "is_digit c \<longleftrightarrow> c \<in> set ''0123456789''"

definition is_upper_alnum :: "char \<Rightarrow> bool" where
  "is_upper_alnum c \<longleftrightarrow> c \<in> set ''ABCDEFGHIJKLMNOPQRSTUVWXYZ0123456789''"

definition reference_format :: "string \<Rightarrow> bool" where
  "reference_format r \<longleftrightarrow>
     length r = 27 \<and> take 4 r = ''TXN-'' \<and>
     list_all is_digit (take 14 (drop 4 r)) \<and> take 1 (drop 18 r) = ''-'' \<and>
     list_all is_digit (take 3 (drop 19 r)) \<and> take 1 (drop 22 r) = ''-'' \<and>
     list_all is_upper_alnum (drop 23 r)"

section \<open>Responses, idempotency records and the state of the services\<close>

record WalletResponseDto =
  r_id :: string
  r_currency :: Currency
  r_balance :: rat
  r_version :: int
  r_createdAt :: nat
  r_updatedAt :: nat

text \<open>
  What the two idempotent operations return. The transaction part of a transfer response
  copies every field of the transaction, so the transaction itself stands for it.
\<close>

datatype response =
    WalletResponse WalletResponseDto
  | TransferResponse WalletResponseDto WalletResponseDto Transaction

record IdempotencyRecord =
  rec_key :: string
  rec_operation :: string
  rec_hash :: string
  rec_requestData :: json
  rec_response :: response
  rec_createdAt :: nat
  rec_expiresAt :: nat

text \<open>
  The state owned by the injected singletons: the wallet map of the repository, the
  transaction log, the reference counter of the transaction service, the cache of the
  idempotency service and the callbacks it has scheduled with \<open>setTimeout\<close> (due time
  and the argument that will be passed to \<open>cleanupExpired\<close>).
\<close>

record state =
  wallets :: wallets
  transactions :: "Transaction list"
  transactionCounter :: nat
  cache :: "(string \<times> IdempotencyRecord) list"
  timers :: "(nat \<times> string) list"

text \<open>
  What one call reads from outside the program: the clock (in milliseconds, and as
  calendar fields), the id that \<open>uuidv4()\<close> returns, the text of
  \<open>Math.random().toString(36)\<close> and \<open>process.env.NODE_ENV\<close>. One reading of the clock
  serves all timestamps taken during the call.
\<close>

record env =
  env_now :: nat
  env_date :: Date
  env_uuid :: string
  env_random :: string
  env_node_env :: string

section \<open>Repository reads and creation\<close>


definition findById :: "nat \<Rightarrow> string \<Rightarrow> wallets \<Rightarrow> error + Wallet option" where
  "findById now i ws =
     (case map_of ws i of
        None \<Rightarrow> Inr None
      | Some wallet \<Rightarrow>
          (case cloneWallet now wallet of Inl e \<Rightarrow> Inl e | Inr c \<Rightarrow> Inr (Some c)))"

fun findByIds_loop ::
  "nat \<Rightarrow> string list \<Rightarrow> wallets \<Rightarrow> (string \<times> Wallet) list \<Rightarrow> error + (string \<times> Wallet) list"
  where
  "findByIds_loop now [] ws result = Inr result"
| "findByIds_loop now (i # ids) ws result =
     (case map_of ws i of
        None \<Rightarrow> findByIds_loop now ids ws result
      | Some wallet \<Rightarrow>
          (case cloneWallet now wallet of
             Inl e \<Rightarrow> Inl e
           | Inr c \<Rightarrow> findByIds_loop now ids ws (AList.update i c result)))"

definition findByIds :: "nat \<Rightarrow> string list \<Rightarrow> wallets \<Rightarrow> error + (string \<times> Wallet) list" where
  "findByIds now ids ws = findByIds_loop now ids ws []"

section \<open>The transaction service\<close>

definition createFundingTransaction ::
  "env \<Rightarrow> string \<Rightarrow> rat \<Rightarrow> Currency \<Rightarrow> metadata option \<Rightarrow> state \<Rightarrow>
   (error + Transaction) \<times> state" where
  "createFundingTransaction e targetWalletId amt cur md s =
     (case generateTransactionReference (env_date e) (env_random e) (transactionCounter s) of
        (ref, counter') \<Rightarrow>
          (let s1 = s\<lparr>transactionCounter := counter'\<rparr> in
           case new_Transaction (env_now e) (env_uuid e) ref FUNDING None targetWalletId
                  amt cur (Some COMPLETED) md of
             Inl err \<Rightarrow> (Inl err, s1)
           | Inr transaction \<Rightarrow>
               (case transaction_create transaction (transactions s1) of
                  (r, txs) \<Rightarrow> (r, s1\<lparr>transactions := txs\<rparr>))))"

definition createTransferTransaction ::
  "env \<Rightarrow> string \<Rightarrow> string \<Rightarrow> rat \<Rightarrow> Currency \<Rightarrow> metadata option \<Rightarrow> state \<Rightarrow>
   (error + Transaction) \<times> state" where
  "createTransferTransaction e sourceWalletId targetWalletId amt cur md s =
     (case generateTransactionReference (env_date e) (env_random e) (transactionCounter s) of
        (ref, counter') \<Rightarrow>
          (let s1 = s\<lparr>transactionCounter := counter'\<rparr> in
           case new_Transaction (env_now e) (env_uuid e) ref TRANSFER (Some sourceWalletId)
                  targetWalletId amt cur (Some COMPLETED) md of
             Inl err \<Rightarrow> (Inl err, s1)
           | Inr transaction \<Rightarrow>
               (case transaction_create transaction (transactions s1) of
                  (r, txs) \<Rightarrow> (r, s1\<lparr>transactions := txs\<rparr>))))"

section \<open>The idempotency service\<close>

definition TTL_MS :: nat where
  "TTL_MS = 24 * 60 * 60 * 1000"

text \<open>
  The digest \<open>crypto.createHash('sha256')\<close> comes from the platform; the model takes the
  function from input text to hexadecimal digest as the parameter \<open>H\<close>.
\<close>

definition generateHash :: "(string \<Rightarrow> string) \<Rightarrow> string \<Rightarrow> string \<Rightarrow> json \<Rightarrow> string" where
  "generateHash H idempotencyKey operation requestData =
     (let sortedData = sortObjectKeys requestData;
          dataString = stringify sortedData;
          input = idempotencyKey @ ''|'' @ operation @ ''|'' @ dataString
      in H input)"

definition requestDataMatches :: "json \<Rightarrow> json \<Rightarrow> bool" where
  "requestDataMatches data1 data2 \<longleftrightarrow>
     stringify (sortObjectKeys data1) = stringify (sortObjectKeys data2)"

definition cacheResponse ::
  "env \<Rightarrow> string \<Rightarrow> string \<Rightarrow> string \<Rightarrow> json \<Rightarrow> response \<Rightarrow> state \<Rightarrow> state" where
  "cacheResponse e hash idempotencyKey operation requestData resp s =
     (let now = env_now e;
          expiresAt = now + TTL_MS;
          record = \<lparr>rec_key = idempotencyKey, rec_operation = operation, rec_hash = hash,
                    rec_requestData = requestData, rec_response = resp,
                    rec_createdAt = now, rec_expiresAt = expiresAt\<rparr>;
          s1 = s\<lparr>cache := AList.update hash record (cache s)\<rparr>
      in if env_node_env e \<noteq> ''test''
         then s1\<lparr>timers := timers s1 @ [(now + TTL_MS, idempotencyKey)]\<rparr>
         else s1)"

definition cleanupExpired :: "nat \<Rightarrow> string \<Rightarrow> state \<Rightarrow> state" where
  "cleanupExpired now hash s =
     (case map_of (cache s) hash of
        None \<Rightarrow> s
      | Some record \<Rightarrow>
          if rec_expiresAt record < now then s\<lparr>cache := AList.delete hash (cache s)\<rparr>
          else s)"

text \<open>
  The event loop at time \<open>now\<close>: every scheduled callback that is due runs, in the
  order of scheduling, and is removed from the pending ones.
\<close>

definition runTimers :: "nat \<Rightarrow> state \<Rightarrow> state" where
  "runTimers now s =
     foldl (\<lambda>st (due, arg). cleanupExpired now arg st)
       (s\<lparr>timers := filter (\<lambda>(due, arg). now < due) (timers s)\<rparr>)
       (filter (\<lambda>(due, arg). due \<le> now) (timers s))"

definition processWithIdempotency ::
  "(string \<Rightarrow> string) \<Rightarrow> env \<Rightarrow> string \<Rightarrow> string \<Rightarrow> json \<Rightarrow>
   (state \<Rightarrow> (error + response) \<times> state) \<Rightarrow> state \<Rightarrow> (error + response) \<times> state" where
  "processWithIdempotency H e idempotencyKey operation requestData fn s =
     (let hash = generateHash H idempotencyKey operation requestData in
      case map_of (cache s) hash of
        Some cached \<Rightarrow>
          if \<not> requestDataMatches requestData (rec_requestData cached) then
            (Inl (DuplicateTransactionError idempotencyKey (rec_requestData cached)), s)
          else (Inr (rec_response cached), s)
      | None \<Rightarrow>
          (case fn s of
             (Inl err, s') \<Rightarrow> (Inl err, s')
           | (Inr resp, s') \<Rightarrow>
               (Inr resp, cacheResponse e hash idempotencyKey operation requestData resp s')))"

section \<open>The wallet service\<close>

record CreateWalletDto =
  c_currency :: "Currency option"
  c_initialBalance :: "number option"

record FundWalletDto =
  f_amount :: number
  f_idempotencyKey :: string
  f_metadata :: "metadata option"

record TransferFundsDto =
  t_targetWalletId :: string
  t_amount :: number
  t_idempotencyKey :: string
  t_metadata :: "metadata option"

text \<open>The request data that the two idempotent operations hand to the idempotency service.\<close>

abbreviation fund_request :: "string \<Rightarrow> FundWalletDto \<Rightarrow> json" where
  "fund_request walletId dto \<equiv>
     JObj [(''walletId'', JStr walletId), (''amount'', JNum (f_amount dto))]"

abbreviation transfer_request :: "string \<Rightarrow> TransferFundsDto \<Rightarrow> json" where
  "transfer_request src dto \<equiv>
     JObj [(''sourceWalletId'', JStr src), (''targetWalletId'', JStr (t_targetWalletId dto)),
           (''amount'', JNum (t_amount dto))]"

definition MAX_RETRY_ATTEMPTS :: nat where
  "MAX_RETRY_ATTEMPTS = 3"

definition mapToWalletResponse :: "Wallet \<Rightarrow> WalletResponseDto" where
  "mapToWalletResponse wallet =
     \<lparr>r_id = wallet_id wallet, r_currency = currency wallet, r_balance = balance wallet,
      r_version = version wallet, r_createdAt = createdAt wallet,
      r_updatedAt = updatedAt wallet\<rparr>"


definition getWalletOrThrow :: "nat \<Rightarrow> string \<Rightarrow> wallets \<Rightarrow> error + Wallet" where
  "getWalletOrThrow now walletId ws =
     (case findById now walletId ws of
        Inl e \<Rightarrow> Inl e
      | Inr None \<Rightarrow> Inl (WalletNotFoundError walletId)
      | Inr (Some wallet) \<Rightarrow> Inr wallet)"

text \<open>
  The service methods are asynchronous: at each \<open>await\<close> other requests may run and
  change the shared state. The parameter \<open>ot\<close> gives, for the n-th \<open>await\<close> of a call,
  what the other requests do to the state at that point; \<open>quiet\<close> is a call that runs
  alone. An exception leaves the call at once, with the state as it is at the throw. The
  points are the awaits of the wallet service; the idempotency service runs its lookup and
  its store without interruption.
\<close>

definition quiet :: "nat \<Rightarrow> state \<Rightarrow> state" where
  "quiet n s = s"

definition executeFunding ::
  "env \<Rightarrow> (nat \<Rightarrow> state \<Rightarrow> state) \<Rightarrow> string \<Rightarrow> FundWalletDto \<Rightarrow> state \<Rightarrow>
   (error + response) \<times> state" where
  "executeFunding e ot walletId dto s =
     (case getWalletOrThrow (env_now e) walletId (wallets s) of
        Inl err \<Rightarrow> (Inl err, s)
      | Inr wallet \<Rightarrow>
          (let s1 = ot 0 s;
               originalVersion = version wallet
           in case fund (env_now e) (numval (f_amount dto)) wallet of
             Inl err \<Rightarrow> (Inl err, s1)
           | Inr wallet1 \<Rightarrow>
               (case update (env_now e) wallet1 originalVersion (wallets s1) of
                  (Inl err, wallet2, ws2) \<Rightarrow> (Inl err, s1)
                | (Inr updated, wallet2, ws2) \<Rightarrow>
                    (let s2 = ot 1 (s1\<lparr>wallets := ws2\<rparr>) in
                     if \<not> updated then
                       (Inl (ConcurrentModificationError ''Wallet'' walletId), s2)
                     else
                       (case createFundingTransaction e walletId (numval (f_amount dto))
                               (currency wallet2) (f_metadata dto) s2 of
                          (Inl err, s3) \<Rightarrow> (Inl err, s3)
                        | (Inr transaction, s3) \<Rightarrow>
                            (Inr (WalletResponse (mapToWalletResponse wallet2)), ot 2 s3))))))"

definition fundWallet ::
  "(string \<Rightarrow> string) \<Rightarrow> env \<Rightarrow> (nat \<Rightarrow> state \<Rightarrow> state) \<Rightarrow> string \<Rightarrow> FundWalletDto \<Rightarrow> state \<Rightarrow>
   (error + response) \<times> state" where
  "fundWallet H e ot walletId dto s =
     (case validateAmount (f_amount dto) of
        Inl err \<Rightarrow> (Inl err, s)
      | Inr u \<Rightarrow>
          processWithIdempotency H e (f_idempotencyKey dto) ''FUND_WALLET''
            (fund_request walletId dto) (executeFunding e ot walletId dto) s)"

text \<open>
  The compensating update. Its boolean result is not looked at, and an exception from it
  is caught and logged, so all it yields is the stored wallets.
\<close>

definition rollbackSourceWallet :: "nat \<Rightarrow> Wallet \<Rightarrow> rat \<Rightarrow> int \<Rightarrow> wallets \<Rightarrow> wallets" where
  "rollbackSourceWallet now sourceWallet originalBalance currentVersion ws =
     (case update now (sourceWallet\<lparr>balance := originalBalance, version := currentVersion\<rparr>)
             currentVersion ws of
        (r, w', ws') \<Rightarrow> ws')"

text \<open>
  One transfer attempt. The service calls it with two different wallet ids only (the
  caller rejects a transfer to the same wallet first), and the model is for such ids.
\<close>

definition executeTransfer ::
  "env \<Rightarrow> (nat \<Rightarrow> state \<Rightarrow> state) \<Rightarrow> string \<Rightarrow> TransferFundsDto \<Rightarrow> state \<Rightarrow>
   (error + response) \<times> state" where
  "executeTransfer e ot sourceWalletId dto s =
     (let now = env_now e; amt = numval (t_amount dto); targetId = t_targetWalletId dto in
      case findByIds now [sourceWalletId, targetId] (wallets s) of
        Inl err \<Rightarrow> (Inl err, s)
      | Inr found \<Rightarrow>
     (let s1 = ot 0 s in
      case map_of found sourceWalletId of
        None \<Rightarrow> (Inl (WalletNotFoundError sourceWalletId), s1)
      | Some sourceWallet \<Rightarrow>
     (case map_of found targetId of
        None \<Rightarrow> (Inl (WalletNotFoundError targetId), s1)
      | Some targetWallet \<Rightarrow>
      if \<not> hasSufficientBalance amt sourceWallet then
        (Inl (InsufficientBalanceError sourceWalletId amt (balance sourceWallet)), s1)
      else
     (case deduct now amt sourceWallet of
        Inl err \<Rightarrow> (Inl err, s1)
      | Inr sourceWallet1 \<Rightarrow>
     (case update now sourceWallet1 (version sourceWallet) (wallets s1) of
        (Inl err, sourceWallet2, ws2) \<Rightarrow> (Inl err, s1)
      | (Inr sourceUpdated, sourceWallet2, ws2) \<Rightarrow>
     (let s2 = ot 1 (s1\<lparr>wallets := ws2\<rparr>) in
      if \<not> sourceUpdated then
        (Inl (ConcurrentModificationError ''Wallet'' sourceWalletId), s2)
      else
     (case fund now amt targetWallet of
        Inl err \<Rightarrow> (Inl err, s2)
      | Inr targetWallet1 \<Rightarrow>
     (case update now targetWallet1 (version targetWallet) (wallets s2) of
        (Inl err, targetWallet2, ws3) \<Rightarrow> (Inl err, s2)
      | (Inr targetUpdated, targetWallet2, ws3) \<Rightarrow>
     (let s3 = ot 2 (s2\<lparr>wallets := ws3\<rparr>) in
      if \<not> targetUpdated then
        (Inl (ConcurrentModificationError ''Wallet'' targetId),
         ot 3 (s3\<lparr>wallets :=
                   rollbackSourceWallet now sourceWallet2 (balance sourceWallet)
                     (version sourceWallet + 1) (wallets s3)\<rparr>))
      else
     (case createTransferTransaction e sourceWalletId targetId amt (currency sourceWallet2)
             (t_metadata dto) s3 of
        (Inl err, s4) \<Rightarrow> (Inl err, s4)
      | (Inr transaction, s4) \<Rightarrow>
          (Inr (TransferResponse (mapToWalletResponse sourceWallet2)
                  (mapToWalletResponse targetWallet2) transaction),
           ot 4 s4)))))))))))"

definition isConcurrentModificationError :: "error \<Rightarrow> bool" where
  "isConcurrentModificationError err =
     (case err of ConcurrentModificationError r i \<Rightarrow> True | _ \<Rightarrow> False)"

text \<open>
  The retry wrapper. \<open>ots attempt\<close> is what the other requests do during that attempt; its
  point 5 is the backoff sleep before the next attempt.
\<close>

function executeTransferWithRetry ::
  "env \<Rightarrow> (nat \<Rightarrow> nat \<Rightarrow> state \<Rightarrow> state) \<Rightarrow> string \<Rightarrow> TransferFundsDto \<Rightarrow> nat \<Rightarrow> state \<Rightarrow>
   (error + response) \<times> state" where
  "executeTransferWithRetry e ots sourceWalletId dto attempt s =
     (case executeTransfer e (ots attempt) sourceWalletId dto s of
        (Inr r, s') \<Rightarrow> (Inr r, s')
      | (Inl err, s') \<Rightarrow>
          if isConcurrentModificationError err \<and> attempt < MAX_RETRY_ATTEMPTS then
            executeTransferWithRetry e ots sourceWalletId dto (attempt + 1) (ots attempt 5 s')
          else (Inl err, s'))"
  by pat_completeness auto
termination
  by (relation "measure (\<lambda>(e, ots, sourceWalletId, dto, attempt, s). MAX_RETRY_ATTEMPTS - attempt)")
    auto

declare executeTransferWithRetry.simps [simp del]

definition transferFunds ::
  "(string \<Rightarrow> string) \<Rightarrow> env \<Rightarrow> (nat \<Rightarrow> nat \<Rightarrow> state \<Rightarrow> state) \<Rightarrow> string \<Rightarrow> TransferFundsDto \<Rightarrow>
   state \<Rightarrow> (error + response) \<times> state" where
  "transferFunds H e ots sourceWalletId dto s =
     (case validateAmount (t_amount dto) of
        Inl err \<Rightarrow> (Inl err, s)
      | Inr u \<Rightarrow>
          if sourceWalletId = t_targetWalletId dto then
            (Inl (SameWalletTransferError sourceWalletId), s)
          else
            processWithIdempotency H e (t_idempotencyKey dto) ''TRANSFER_FUNDS''
              (transfer_request sourceWalletId dto)
              (executeTransferWithRetry e ots sourceWalletId dto 1) s)"

section \<open>Sequences of operations\<close>

text \<open>
  A sequence of calls, each running alone to its end before the next starts. The sum of
  the stored balances and the invariant that no stored balance is negative are stated
  over the stored wallets.
\<close>

datatype operation =
    CreateWallet CreateWalletDto
  | FundWallet string FundWalletDto
  | TransferFunds string TransferFundsDto





definition balance_of :: "state \<Rightarrow> string \<Rightarrow> rat option" where
  "balance_of s i = map_option balance (map_of (wallets s) i)"



section \<open>Vocabulary of the proofs\<close>



section \<open>Example data\<close>

abbreviation wallet_at :: "string \<Rightarrow> rat \<Rightarrow> int \<Rightarrow> nat \<Rightarrow> nat \<Rightarrow> Wallet" where
  "wallet_at i b v c u \<equiv>
     \<lparr>wallet_id = i, currency = USD, balance = b, version = v, createdAt = c, updatedAt = u\<rparr>"

abbreviation state_of :: "wallets \<Rightarrow> state" where
  "state_of ws \<equiv>
     \<lparr>wallets = ws, transactions = [], transactionCounter = 0, cache = [], timers = []\<rparr>"

abbreviation jan15 :: Date where
  "jan15 \<equiv>
     \<lparr>d_year = 2025, d_month = 1, d_day = 15, d_hours = 12, d_minutes = 30, d_seconds = 45,
      d_milliseconds = 7\<rparr>"

abbreviation env_at :: "nat \<Rightarrow> string \<Rightarrow> env" where
  "env_at t u \<equiv>
     \<lparr>env_now = t, env_date = jan15, env_uuid = u, env_random = ''0.a7f3xyz'',
      env_node_env = ''production''\<rparr>"

abbreviation fund_dto :: "number \<Rightarrow> string \<Rightarrow> FundWalletDto" where
  "fund_dto a k \<equiv> \<lparr>f_amount = a, f_idempotencyKey = k, f_metadata = None\<rparr>"



abbreviation n100 :: number where
  "n100 \<equiv> Number False [1] 3"

abbreviation n200 :: number where
  "n200 \<equiv> Number False [2] 3"




section \<open>Verification\<close>

subsection \<open>The optimistic-lock update\<close>

text \<open>\<open>update\<close> with the clone and the constructor unfolded: its four outcomes.\<close>

lemma update_result_cases:
  "update now w ev ws =
     (case map_of ws (wallet_id w) of
        None \<Rightarrow> (Inr False, w, ws)
      | Some sw \<Rightarrow>
          if version sw \<noteq> ev then (Inr False, w, ws)
          else if balance w < 0 then
            (Inl (PlainError ''Wallet balance cannot be negative''),
             w\<lparr>version := ev + 1, updatedAt := now\<rparr>, ws)
          else (Inr True, w\<lparr>version := ev + 1, updatedAt := now\<rparr>,
                AList.update (wallet_id w)
                  \<lparr>wallet_id = wallet_id w, currency = currency w, balance = balance w,
                   version = ev + 1, createdAt = now, updatedAt = now\<rparr> ws))"
  by (simp add: update_def cloneWallet_def new_Wallet_def Let_def split: option.splits)






subsection \<open>Amount validation\<close>

text \<open>
  C8. The amount \<open>1e-7\<close> is positive, below the maximum and has seven fractional digits,
  yet \<open>validateAmount\<close> accepts it: \<open>toString\<close> prints it as \<open>1e-7\<close>, which has no
  decimal point, so the precision check counts zero decimals.
\<close>

theorem validateAmount_accepts_1e_minus_7:
  "canonical (Number False [1] (- 6))
   \<and> numval (Number False [1] (- 6)) = 1 / 10000000
   \<and> 0 < numval (Number False [1] (- 6))
   \<and> numval (Number False [1] (- 6)) \<le> MAX_AMOUNT
   \<and> fraction_digits (Number False [1] (- 6)) = 7
   \<and> toString (Number False [1] (- 6)) = ''1e-7''
   \<and> validateAmount (Number False [1] (- 6)) = Inr ()"
  by (simp add: validateAmount_def numval_def digits_val_def pow10_def MAX_AMOUNT_def
      toString_def string_of_nat.simps digit_char_def canonical_def fraction_digits_def)

subsection \<open>Evaluation and shared facts\<close>

lemma cloneWallet_cases:
  "cloneWallet now w =
     (if balance w < 0 then Inl (PlainError ''Wallet balance cannot be negative'')
      else Inr \<lparr>wallet_id = wallet_id w, currency = currency w, balance = balance w,
                version = version w, createdAt = now, updatedAt = updatedAt w\<rparr>)"
  by (simp add: cloneWallet_def new_Wallet_def)

lemma update_False_unchanged:
  "fst (update now w ev ws) = Inr False \<Longrightarrow> snd (snd (update now w ev ws)) = ws"
  by (auto simp: update_result_cases split: option.splits if_splits)


lemma state_wallets_same [simp]: "s\<lparr>wallets := wallets s\<rparr> = (s::state)"
  by simp


lemma replicate_numeral:
  "replicate (numeral k) x = x # replicate (pred_numeral k) x"
  by (simp add: numeral_eq_Suc)

lemmas eval_defs =
  executeFunding_def getWalletOrThrow_def findById_def cloneWallet_cases fund_def deduct_def
  numval_def digits_val_def pow10_def update_result_cases Let_def hasSufficientBalance_def
  findByIds_def executeTransfer_def mapToWalletResponse_def rollbackSourceWallet_def

lemmas txn_defs =
  createTransferTransaction_def createFundingTransaction_def generateTransactionReference_def
  new_Transaction_def transaction_create_def toISOString_def pad_def padStart_def
  string_of_nat.simps digit_char_def substring_def toUpperCase_def replicate_numeral

subsection \<open>The reference generator\<close>

text \<open>
  C9. With the counter at 999 the next reference carries the counter \<open>1000\<close>, four digits
  instead of three: the counter is reduced modulo 1000 before one is added, so it runs
  through 1 .. 1000. The random suffix has fewer than four characters when the base-36
  text of the random number is short (\<open>0.i\<close> is one half). Neither reference has the
  format \<open>TXN-\<close>14 digits\<open>-\<close>3 digits\<open>-\<close>4 characters.
\<close>

theorem reference_counter_overflow:
  "generateTransactionReference
     jan15 ''0.a7f3xyz'' 999
     = (''TXN-20250115123045-1000-A7F3'', 1000)
   \<and> \<not> reference_format ''TXN-20250115123045-1000-A7F3''
   \<and> generateTransactionReference
     jan15 ''0.i'' 0
     = (''TXN-20250115123045-001-I'', 1)
   \<and> \<not> reference_format ''TXN-20250115123045-001-I''"
  by (simp add: generateTransactionReference_def toISOString_def pad_def padStart_def
      string_of_nat.simps digit_char_def substring_def toUpperCase_def reference_format_def
      replicate_numeral)

subsection \<open>Funding makes one attempt\<close>



subsection \<open>A failed rollback\<close>




subsection \<open>What every write of the repository maintains\<close>










lemma cacheResponse_wallets [simp]:
  "wallets (cacheResponse e h k operation d r s) = wallets s"
  by (simp add: cacheResponse_def Let_def)

lemma cacheResponse_transactions [simp]:
  "transactions (cacheResponse e h k operation d r s) = transactions s"
  by (simp add: cacheResponse_def Let_def)









subsection \<open>A transfer that runs alone\<close>








lemma map_sum_id_Inl [simp]:
  "Inl err = map_sum id f cr \<longleftrightarrow> cr = Inl err"
  "map_sum id f cr = Inl err \<longleftrightarrow> cr = Inl err"
  by (cases cr; auto)+









lemmas api_defs =
  transferFunds_def fundWallet_def processWithIdempotency_def generateHash_def
  requestDataMatches_def cacheResponse_def validateAmount_def MAX_AMOUNT_def toString_def
  quote_def quote_char_def TTL_MS_def

subsection \<open>Conservation\<close>



subsection \<open>No negative balance\<close>




subsection \<open>Idempotent calls\<close>

lemma requestDataMatches_same [simp]: "requestDataMatches d d"
  by (simp add: requestDataMatches_def)

lemma map_of_cacheResponse:
  "map_of (cache (cacheResponse e h k operation d r s)) h =
     Some \<lparr>rec_key = k, rec_operation = operation, rec_hash = h, rec_requestData = d,
           rec_response = r, rec_createdAt = env_now e, rec_expiresAt = env_now e + TTL_MS\<rparr>"
  by (simp add: cacheResponse_def Let_def update_conv')

lemma processWithIdempotency_again:
  assumes "processWithIdempotency H e1 k operation d fn s = (Inr r, s1)"
  shows "processWithIdempotency H e2 k operation d fn' s1 = (Inr r, s1)"
proof (cases "map_of (cache s) (generateHash H k operation d)")
  case (Some cached)
  with assms show ?thesis
    by (auto simp: processWithIdempotency_def Let_def split: if_splits)
next
  case None
  with assms obtain s' where "fn s = (Inr r, s')"
    and s1: "s1 = cacheResponse e1 (generateHash H k operation d) k operation d r s'"
    by (auto simp: processWithIdempotency_def Let_def split: prod.splits sum.splits)
  show ?thesis
    by (simp add: processWithIdempotency_def Let_def s1 map_of_cacheResponse)
qed

text \<open>
  C5. If a \<open>fundWallet\<close> call succeeds, a second call with the same key and parameters
  on the state the first one left returns the same response and changes nothing; and if
  the first call found no record under its fingerprint, its response, the stored wallets
  and the transaction log are those of one run of the funding. So the funding ran once.
  From balance 0, two calls funding 100 with key \<open>k1\<close> leave the balance at 100, with one
  transaction recorded.
\<close>

theorem idempotent_retry:
  assumes first: "fundWallet H e1 ot1 walletId dto s = (Inr r, s1)"
  shows "fundWallet H e2 ot2 walletId dto s1 = (Inr r, s1)
       \<and> (map_of (cache s)
            (generateHash H (f_idempotencyKey dto) ''FUND_WALLET'' (fund_request walletId dto))
            = None
          \<longrightarrow> fst (executeFunding e1 ot1 walletId dto s) = Inr r \<and>
              wallets s1 = wallets (snd (executeFunding e1 ot1 walletId dto s)) \<and>
              transactions s1 = transactions (snd (executeFunding e1 ot1 walletId dto s)))"
proof -
  from first have valid: "validateAmount (f_amount dto) = Inr ()"
    by (auto simp: fundWallet_def split: sum.splits)
  with first have wrapped:
    "processWithIdempotency H e1 (f_idempotencyKey dto) ''FUND_WALLET''
       (fund_request walletId dto) (executeFunding e1 ot1 walletId dto) s = (Inr r, s1)"
    by (simp add: fundWallet_def)
  from processWithIdempotency_again [OF this] valid
  have again: "fundWallet H e2 ot2 walletId dto s1 = (Inr r, s1)"
    by (simp add: fundWallet_def)
  have once: "fst (executeFunding e1 ot1 walletId dto s) = Inr r \<and>
              wallets s1 = wallets (snd (executeFunding e1 ot1 walletId dto s)) \<and>
              transactions s1 = transactions (snd (executeFunding e1 ot1 walletId dto s))"
    if "map_of (cache s)
          (generateHash H (f_idempotencyKey dto) ''FUND_WALLET'' (fund_request walletId dto))
          = None"
    using wrapped that
    by (auto simp: processWithIdempotency_def Let_def split: prod.splits sum.splits)
  from again once show ?thesis by blast
qed

theorem idempotent_retry_witness:
  "\<not> isl (fst (fundWallet (\<lambda>x. x) (env_at 10 ''t1'') quiet ''w1'' (fund_dto n100 ''k1'')
                  (state_of [(''w1'', wallet_at ''w1'' 0 1 0 0)])))
   \<and> balance_of (state_of [(''w1'', wallet_at ''w1'' 0 1 0 0)]) ''w1'' = Some 0
   \<and> balance_of (snd (fundWallet (\<lambda>x. x) (env_at 10 ''t1'') quiet ''w1'' (fund_dto n100 ''k1'')
                  (state_of [(''w1'', wallet_at ''w1'' 0 1 0 0)]))) ''w1'' = Some 100
   \<and> fundWallet (\<lambda>x. x) (env_at 20 ''t2'') quiet ''w1'' (fund_dto n100 ''k1'')
        (snd (fundWallet (\<lambda>x. x) (env_at 10 ''t1'') quiet ''w1'' (fund_dto n100 ''k1'')
                (state_of [(''w1'', wallet_at ''w1'' 0 1 0 0)])))
       = fundWallet (\<lambda>x. x) (env_at 10 ''t1'') quiet ''w1'' (fund_dto n100 ''k1'')
           (state_of [(''w1'', wallet_at ''w1'' 0 1 0 0)])
   \<and> map_of (cache (state_of [(''w1'', wallet_at ''w1'' 0 1 0 0)]))
        (generateHash (\<lambda>x. x) ''k1'' ''FUND_WALLET'' (fund_request ''w1'' (fund_dto n100 ''k1'')))
       = None
   \<and> fst (executeFunding (env_at 10 ''t1'') quiet ''w1'' (fund_dto n100 ''k1'')
             (state_of [(''w1'', wallet_at ''w1'' 0 1 0 0)]))
       = fst (fundWallet (\<lambda>x. x) (env_at 10 ''t1'') quiet ''w1'' (fund_dto n100 ''k1'')
                (state_of [(''w1'', wallet_at ''w1'' 0 1 0 0)]))
   \<and> length (transactions
        (snd (fundWallet (\<lambda>x. x) (env_at 20 ''t2'') quiet ''w1'' (fund_dto n100 ''k1'')
          (snd (fundWallet (\<lambda>x. x) (env_at 10 ''t1'') quiet ''w1'' (fund_dto n100 ''k1'')
                  (state_of [(''w1'', wallet_at ''w1'' 0 1 0 0)])))))) = 1"
proof -
  let ?s = "state_of [(''w1'', wallet_at ''w1'' 0 1 0 0)]"
  let ?X = "fundWallet (\<lambda>x. x) (env_at 10 ''t1'') quiet ''w1'' (fund_dto n100 ''k1'') ?s"
  have x: "\<not> isl (fst ?X)"
    by (simp add: api_defs eval_defs txn_defs quiet_def)
  have b: "balance_of (snd ?X) ''w1'' = Some 100"
    by (simp add: api_defs eval_defs txn_defs quiet_def balance_of_def)
  have n: "length (transactions (snd ?X)) = 1"
    by (simp add: api_defs eval_defs txn_defs quiet_def)
  have miss: "map_of (cache ?s)
        (generateHash (\<lambda>x. x) (f_idempotencyKey (fund_dto n100 ''k1'')) ''FUND_WALLET''
           (fund_request ''w1'' (fund_dto n100 ''k1''))) = None"
    by simp
  from x have xe: "?X = (Inr (projr (fst ?X)), snd ?X)"
    by (metis prod.collapse sum.collapse(2))
  note t = idempotent_retry [OF xe, of "env_at 20 ''t2''" quiet]
  from t xe have again:
    "fundWallet (\<lambda>x. x) (env_at 20 ''t2'') quiet ''w1'' (fund_dto n100 ''k1'') (snd ?X) = ?X"
    by simp
  from t [THEN conjunct2, rule_format, OF miss, THEN conjunct1] xe
  have once: "fst (executeFunding (env_at 10 ''t1'') quiet ''w1'' (fund_dto n100 ''k1'') ?s)
                = fst ?X"
    by (metis fst_conv)
  from x b again once n show ?thesis by (simp add: balance_of_def)
qed

text \<open>
  C4. After \<open>fundWallet\<close> with key \<open>k1\<close> and amount 100 has succeeded, a second call
  with key \<open>k1\<close> and amount 200 is looked up under the fingerprint of its own
  parameters. It fails with the duplicate error only if the digest function maps both
  inputs to the same fingerprint; for every other digest function the funding is executed
  again and the balance becomes 300.
\<close>

theorem key_reuse_executes_again:
  "\<not> isl (fst (fundWallet H (env_at 10 ''t1'') quiet ''w1'' (fund_dto n100 ''k1'')
                  (state_of [(''w1'', wallet_at ''w1'' 0 1 0 0)])))
   \<and> balance_of (snd (fundWallet H (env_at 10 ''t1'') quiet ''w1'' (fund_dto n100 ''k1'')
                  (state_of [(''w1'', wallet_at ''w1'' 0 1 0 0)]))) ''w1'' = Some 100
   \<and> (if generateHash H ''k1'' ''FUND_WALLET'' (fund_request ''w1'' (fund_dto n100 ''k1''))
          = generateHash H ''k1'' ''FUND_WALLET'' (fund_request ''w1'' (fund_dto n200 ''k1''))
       then
         fundWallet H (env_at 20 ''t2'') quiet ''w1'' (fund_dto n200 ''k1'')
           (snd (fundWallet H (env_at 10 ''t1'') quiet ''w1'' (fund_dto n100 ''k1'')
                   (state_of [(''w1'', wallet_at ''w1'' 0 1 0 0)])))
         = (Inl (DuplicateTransactionError ''k1'' (fund_request ''w1'' (fund_dto n100 ''k1''))),
            snd (fundWallet H (env_at 10 ''t1'') quiet ''w1'' (fund_dto n100 ''k1'')
                   (state_of [(''w1'', wallet_at ''w1'' 0 1 0 0)])))
       else
         fst (fundWallet H (env_at 20 ''t2'') quiet ''w1'' (fund_dto n200 ''k1'')
           (snd (fundWallet H (env_at 10 ''t1'') quiet ''w1'' (fund_dto n100 ''k1'')
                   (state_of [(''w1'', wallet_at ''w1'' 0 1 0 0)]))))
         = Inr (WalletResponse
                 \<lparr>r_id = ''w1'', r_currency = USD, r_balance = 300, r_version = 3,
                  r_createdAt = 20, r_updatedAt = 20\<rparr>)
         \<and> balance_of (snd (fundWallet H (env_at 20 ''t2'') quiet ''w1'' (fund_dto n200 ''k1'')
             (snd (fundWallet H (env_at 10 ''t1'') quiet ''w1'' (fund_dto n100 ''k1'')
                   (state_of [(''w1'', wallet_at ''w1'' 0 1 0 0)]))))) ''w1'' = Some 300)"
  by (simp add: api_defs eval_defs txn_defs quiet_def balance_of_def)

theorem key_reuse_executes_again_witness:
  "generateHash (\<lambda>x. x) ''k1'' ''FUND_WALLET'' (fund_request ''w1'' (fund_dto n100 ''k1''))
     \<noteq> generateHash (\<lambda>x. x) ''k1'' ''FUND_WALLET'' (fund_request ''w1'' (fund_dto n200 ''k1''))
   \<and> fst (fundWallet (\<lambda>x. x) (env_at 20 ''t2'') quiet ''w1'' (fund_dto n200 ''k1'')
           (snd (fundWallet (\<lambda>x. x) (env_at 10 ''t1'') quiet ''w1'' (fund_dto n100 ''k1'')
                   (state_of [(''w1'', wallet_at ''w1'' 0 1 0 0)]))))
         = Inr (WalletResponse
                 \<lparr>r_id = ''w1'', r_currency = USD, r_balance = 300, r_version = 3,
                  r_createdAt = 20, r_updatedAt = 20\<rparr>)
   \<and> balance_of (snd (fundWallet (\<lambda>x. x) (env_at 20 ''t2'') quiet ''w1'' (fund_dto n200 ''k1'')
             (snd (fundWallet (\<lambda>x. x) (env_at 10 ''t1'') quiet ''w1'' (fund_dto n100 ''k1'')
                   (state_of [(''w1'', wallet_at ''w1'' 0 1 0 0)]))))) ''w1'' = Some 300"
proof -
  have ne: "generateHash (\<lambda>x. x) ''k1'' ''FUND_WALLET'' (fund_request ''w1'' (fund_dto n100 ''k1''))
     \<noteq> generateHash (\<lambda>x. x) ''k1'' ''FUND_WALLET'' (fund_request ''w1'' (fund_dto n200 ''k1''))"
    by (simp add: generateHash_def toString_def quote_def quote_char_def digit_char_def
        replicate_numeral)
  from key_reuse_executes_again [of "\<lambda>x. x"] ne show ?thesis
    by presburger
qed

text \<open>
  C7. A record is cached at time 10 and expires at 86400010; the callback scheduled for
  that time is given the idempotency key \<open>k1\<close> where \<open>cleanupExpired\<close> expects the
  fingerprint. At time 86400011, after the callback has run, the same call is served from
  the cache unless the fingerprint happens to be the text \<open>k1\<close>: the balance stays 100
  and no second transaction is recorded.
\<close>

theorem expired_record_still_served:
  "\<not> isl (fst (fundWallet H (env_at 10 ''t1'') quiet ''w1'' (fund_dto n100 ''k1'')
                  (state_of [(''w1'', wallet_at ''w1'' 0 1 0 0)])))
   \<and> map_option rec_expiresAt
       (map_of (cache (snd (fundWallet H (env_at 10 ''t1'') quiet ''w1'' (fund_dto n100 ''k1'')
                              (state_of [(''w1'', wallet_at ''w1'' 0 1 0 0)]))))
          (generateHash H ''k1'' ''FUND_WALLET'' (fund_request ''w1'' (fund_dto n100 ''k1''))))
       = Some 86400010
   \<and> timers (snd (fundWallet H (env_at 10 ''t1'') quiet ''w1'' (fund_dto n100 ''k1'')
                    (state_of [(''w1'', wallet_at ''w1'' 0 1 0 0)]))) = [(86400010, ''k1'')]
   \<and> (if generateHash H ''k1'' ''FUND_WALLET'' (fund_request ''w1'' (fund_dto n100 ''k1''))
          = ''k1''
       then
         balance_of
           (snd (fundWallet H (env_at 86400011 ''t2'') quiet ''w1'' (fund_dto n100 ''k1'')
                   (runTimers 86400011
                      (snd (fundWallet H (env_at 10 ''t1'') quiet ''w1'' (fund_dto n100 ''k1'')
                              (state_of [(''w1'', wallet_at ''w1'' 0 1 0 0)])))))) ''w1''
         = Some 200
       else
         fst (fundWallet H (env_at 86400011 ''t2'') quiet ''w1'' (fund_dto n100 ''k1'')
                (runTimers 86400011
                   (snd (fundWallet H (env_at 10 ''t1'') quiet ''w1'' (fund_dto n100 ''k1'')
                           (state_of [(''w1'', wallet_at ''w1'' 0 1 0 0)])))))
         = Inr (WalletResponse
                 \<lparr>r_id = ''w1'', r_currency = USD, r_balance = 100, r_version = 2,
                  r_createdAt = 10, r_updatedAt = 10\<rparr>)
         \<and> balance_of
             (snd (fundWallet H (env_at 86400011 ''t2'') quiet ''w1'' (fund_dto n100 ''k1'')
                     (runTimers 86400011
                        (snd (fundWallet H (env_at 10 ''t1'') quiet ''w1'' (fund_dto n100 ''k1'')
                                (state_of [(''w1'', wallet_at ''w1'' 0 1 0 0)])))))) ''w1''
           = Some 100
         \<and> length (transactions
             (snd (fundWallet H (env_at 86400011 ''t2'') quiet ''w1'' (fund_dto n100 ''k1'')
                     (runTimers 86400011
                        (snd (fundWallet H (env_at 10 ''t1'') quiet ''w1'' (fund_dto n100 ''k1'')
                                (state_of [(''w1'', wallet_at ''w1'' 0 1 0 0)]))))))) = 1)"
  by (simp add: api_defs eval_defs txn_defs quiet_def balance_of_def runTimers_def
      cleanupExpired_def)

theorem expired_record_still_served_witness:
  "generateHash (\<lambda>x. x) ''k1'' ''FUND_WALLET'' (fund_request ''w1'' (fund_dto n100 ''k1''))
     \<noteq> ''k1''
   \<and> fst (fundWallet (\<lambda>x. x) (env_at 86400011 ''t2'') quiet ''w1'' (fund_dto n100 ''k1'')
                (runTimers 86400011
                   (snd (fundWallet (\<lambda>x. x) (env_at 10 ''t1'') quiet ''w1'' (fund_dto n100 ''k1'')
                           (state_of [(''w1'', wallet_at ''w1'' 0 1 0 0)])))))
         = Inr (WalletResponse
                 \<lparr>r_id = ''w1'', r_currency = USD, r_balance = 100, r_version = 2,
                  r_createdAt = 10, r_updatedAt = 10\<rparr>)
   \<and> balance_of
             (snd (fundWallet (\<lambda>x. x) (env_at 86400011 ''t2'') quiet ''w1'' (fund_dto n100 ''k1'')
                     (runTimers 86400011
                        (snd (fundWallet (\<lambda>x. x) (env_at 10 ''t1'') quiet ''w1'' (fund_dto n100 ''k1'')
                                (state_of [(''w1'', wallet_at ''w1'' 0 1 0 0)])))))) ''w1''
           = Some 100"
proof -
  have ne: "generateHash (\<lambda>x. x) ''k1'' ''FUND_WALLET'' (fund_request ''w1'' (fund_dto n100 ''k1''))
     \<noteq> ''k1''"
    by (simp add: generateHash_def)
  from expired_record_still_served [of "\<lambda>x. x"] ne show ?thesis
    by presburger
qed

end
